theory Spec2Isabelle
  imports Main "HOL-Library.Multiset" "HOL-Library.AList"
begin

section \<open>Values of the enrichment payload\<close>

text \<open>
  \<^verbatim>\<open>score_startup(data)\<close> receives whatever \<^verbatim>\<open>response.json()\<close> decoded, so the
  model works on dynamically typed values. A Python dict is an association list read
  with \<open>map_of\<close>. JSON numbers with a fractional part (Python floats) are not part of
  this model: the code accepts them wherever it accepts an int, and nothing below says
  what it does with them.
\<close>

datatype pyval =
    PNone
  | PBool bool
  | PInt int
  | PStr string
  | PList "pyval list"
  | PDict "(string \<times> pyval) list"

type_synonym pydict = "(string \<times> pyval) list"

text \<open>
  The exceptions in play: the three the scoring code can raise on a decoded payload,
  a failure of \<^verbatim>\<open>requests.get\<close> and a body that \<^verbatim>\<open>response.json()\<close> cannot decode.
\<close>

datatype error = KeyError | TypeError | AttributeError | RequestError | JSONDecodeError

text \<open>Python truth value testing, as used by \<^verbatim>\<open>if x\<close> and \<^verbatim>\<open>x or y\<close>.\<close>

fun truthy :: "pyval \<Rightarrow> bool" where
  "truthy PNone = False"
| "truthy (PBool b) = b"
| "truthy (PInt i) = (i \<noteq> 0)"
| "truthy (PStr s) = (s \<noteq> [])"
| "truthy (PList xs) = (xs \<noteq> [])"
| "truthy (PDict d) = (d \<noteq> [])"

definition py_or :: "pyval \<Rightarrow> pyval \<Rightarrow> pyval" where
  "py_or x y = (if truthy x then x else y)"

text \<open>\<^verbatim>\<open>d.get(k, default)\<close> on a dict.\<close>

definition dict_get :: "pydict \<Rightarrow> string \<Rightarrow> pyval \<Rightarrow> pyval" where
  "dict_get d k dflt = (case map_of d k of None \<Rightarrow> dflt | Some v \<Rightarrow> v)"

text \<open>
  \<^verbatim>\<open>x["key"]\<close>: KeyError on a dict without the key, TypeError on every other value
  (lists and strings want integer indices, the rest is not subscriptable).
\<close>

fun subscript :: "pyval \<Rightarrow> string \<Rightarrow> error + pyval" where
  "subscript (PDict d) k = (case map_of d k of None \<Rightarrow> Inl KeyError | Some v \<Rightarrow> Inr v)"
| "subscript _ k = Inl TypeError"

text \<open>
  The values of this model that Python orders against an \<^verbatim>\<open>int\<close>: ints and bools
  (\<^verbatim>\<open>True\<close> is 1). Comparing any other value of the model with an int raises
  TypeError. (Python orders floats against an int as well; they are outside the model.)
\<close>

fun as_number :: "pyval \<Rightarrow> int option" where
  "as_number (PInt i) = Some i"
| "as_number (PBool b) = Some (if b then 1 else 0)"
| "as_number _ = None"

text \<open>\<^verbatim>\<open>str.lower()\<close> on the ASCII letters.\<close>

definition lower_char :: "char \<Rightarrow> char" where
  "lower_char c =
     (case map_of (zip ''ABCDEFGHIJKLMNOPQRSTUVWXYZ'' ''abcdefghijklmnopqrstuvwxyz'') c of
        None \<Rightarrow> c
      | Some l \<Rightarrow> l)"

definition lower :: "string \<Rightarrow> string" where
  "lower s = map lower_char s"

text \<open>What a \<^verbatim>\<open>for\<close> loop iterates over: list items, characters of a string, keys of a dict.\<close>

fun iterate :: "pyval \<Rightarrow> error + pyval list" where
  "iterate (PList xs) = Inr xs"
| "iterate (PStr s) = Inr (map (\<lambda>c. PStr [c]) s)"
| "iterate (PDict d) = Inr (map (\<lambda>kv. PStr (fst kv)) d)"
| "iterate _ = Inl TypeError"

section \<open>The scoring function\<close>

text \<open>
  \<^verbatim>\<open>
  if email_count:
      score += min(30, email_count * 10)
  \<close>
  A truthy value that is not a number fails inside \<^verbatim>\<open>min\<close> (or in the product).
\<close>

definition email_volume_term :: "pyval \<Rightarrow> error + int" where
  "email_volume_term email_count =
     (if truthy email_count then
        (case as_number email_count of
           None \<Rightarrow> Inl TypeError
         | Some n \<Rightarrow> Inr (min 30 (n * 10)))
      else Inr 0)"

text \<open>
  \<^verbatim>\<open>
  if industry and industry.lower() in ["software", "technology", "saas"]:
      score += 10
  \<close>
\<close>

definition industry_term :: "pyval \<Rightarrow> error + int" where
  "industry_term industry =
     (if truthy industry then
        (case industry of
           PStr s \<Rightarrow> Inr (if lower s \<in> set [''software'', ''technology'', ''saas''] then 10 else 0)
         | _ \<Rightarrow> Inl AttributeError)
      else Inr 0)"

text \<open>
  \<^verbatim>\<open>
  if employees and employees > 10:
      score += 20
  \<close>
\<close>

definition headcount_term :: "pyval \<Rightarrow> error + int" where
  "headcount_term employees =
     (if truthy employees then
        (case as_number employees of
           None \<Rightarrow> Inl TypeError
         | Some n \<Rightarrow> Inr (if n > 10 then 20 else 0))
      else Inr 0)"

text \<open>
  \<^verbatim>\<open>
  if data.get("webmail"):
      score += 10
  \<close>
\<close>

definition webmail_term :: "pyval \<Rightarrow> int" where
  "webmail_term webmail = (if truthy webmail then 10 else 0)"

text \<open>
  The body of the loop over \<^verbatim>\<open>data.get("emails", [])\<close>, as the amount it adds to the score:
  \<^verbatim>\<open>
  if email["type"] in ["generic", "personal"]:
      if email.get("confidence", 0) >= 80:
          score += 10
      if email.get("position") and email["position"].lower() in ["ceo", "founder", "cto"]:
          score += 5
  \<close>
\<close>

definition confidence_bonus :: "pydict \<Rightarrow> error + int" where
  "confidence_bonus email =
     (case as_number (dict_get email ''confidence'' (PInt 0)) of
        None \<Rightarrow> Inl TypeError
      | Some c \<Rightarrow> Inr (if c \<ge> 80 then 10 else 0))"

definition position_bonus :: "pydict \<Rightarrow> error + int" where
  "position_bonus email =
     (let position = dict_get email ''position'' PNone in
      if truthy position then
        (case position of
           PStr s \<Rightarrow> Inr (if lower s \<in> set [''ceo'', ''founder'', ''cto''] then 5 else 0)
         | _ \<Rightarrow> Inl AttributeError)
      else Inr 0)"

definition email_bonus :: "pyval \<Rightarrow> error + int" where
  "email_bonus email =
     (case subscript email ''type'' of
        Inl e \<Rightarrow> Inl e
      | Inr t \<Rightarrow>
          (case email of
             PDict em \<Rightarrow>
               if t \<in> set [PStr ''generic'', PStr ''personal''] then
                 (case confidence_bonus em of
                    Inl e \<Rightarrow> Inl e
                  | Inr c \<Rightarrow>
                      (case position_bonus em of
                         Inl e \<Rightarrow> Inl e
                       | Inr p \<Rightarrow> Inr (c + p)))
               else Inr 0
           | _ \<Rightarrow> Inl TypeError))"

text \<open>The loop itself: the score is threaded through, the first exception ends it.\<close>

fun emails_loop :: "pyval list \<Rightarrow> int \<Rightarrow> error + int" where
  "emails_loop [] score = Inr score"
| "emails_loop (email # rest) score =
     (case email_bonus email of
        Inl e \<Rightarrow> Inl e
      | Inr b \<Rightarrow> emails_loop rest (score + b))"

text \<open>
  \<^verbatim>\<open>score_startup(data)\<close>. Calling \<^verbatim>\<open>.get\<close> on anything but a dict raises
  AttributeError. The result is the dict the function returns, keys in source order.
\<close>

definition score_startup :: "pyval \<Rightarrow> error + pydict" where
  "score_startup data =
     (case data of
        PDict d \<Rightarrow>
          (let org = dict_get d ''organization'' (dict_get d ''domain'' (PStr ''N/A''));
               industry = dict_get d ''industry'' (PStr '''');
               email_count = dict_get d ''emails_count'' (PInt 0);
               employees = dict_get d ''employees'' (PInt 0)
           in case email_volume_term email_count of
                Inl e \<Rightarrow> Inl e
              | Inr s1 \<Rightarrow>
           (case industry_term industry of
                Inl e \<Rightarrow> Inl e
              | Inr s2 \<Rightarrow>
           (case headcount_term employees of
                Inl e \<Rightarrow> Inl e
              | Inr s3 \<Rightarrow>
           (let s4 = webmail_term (dict_get d ''webmail'' PNone)
            in case iterate (dict_get d ''emails'' (PList [])) of
                Inl e \<Rightarrow> Inl e
              | Inr emails \<Rightarrow>
           (case emails_loop emails (s1 + s2 + s3 + s4) of
                Inl e \<Rightarrow> Inl e
              | Inr score \<Rightarrow>
                  Inr [(''organization'', org),
                       (''domain'', dict_get d ''domain'' PNone),
                       (''industry'', py_or industry (PStr ''N/A'')),
                       (''emails_found'', email_count),
                       (''employees'', py_or employees (PStr ''N/A'')),
                       (''score'', PInt score)])))))
      | _ \<Rightarrow> Inl AttributeError)"

text \<open>
  \<^verbatim>\<open>
  def classify_score(score):
      if score >= 75: return "High"
      elif score >= 40: return "Mid"
      else: return "Low"
  \<close>
\<close>

definition classify_score :: "int \<Rightarrow> string" where
  "classify_score score =
     (if score \<ge> 75 then ''High'' else if score \<ge> 40 then ''Mid'' else ''Low'')"

text \<open>The \<^verbatim>\<open>"score"\<close> entry of what \<^verbatim>\<open>score_startup\<close> returned, if it returned.\<close>

definition score_of :: "error + pydict \<Rightarrow> int option" where
  "score_of res =
     (case res of
        Inl e \<Rightarrow> None
      | Inr r \<Rightarrow> (case map_of r ''score'' of Some (PInt n) \<Rightarrow> Some n | _ \<Rightarrow> None))"

section \<open>The batch loop\<close>

text \<open>
  What \<^verbatim>\<open>requests.get(url)\<close> does for one domain: it raises, or it returns a response
  with a status code and a body; the body is \<open>None\<close> when \<^verbatim>\<open>response.json()\<close>
  cannot decode it. The network is a state \<open>'w\<close> threaded through the calls, so the
  same domain may be answered differently on a later call.
\<close>

datatype fetch_outcome = RequestRaised | Response int "pyval option"

type_synonym 'w fetch = "'w \<Rightarrow> string \<Rightarrow> fetch_outcome \<times> 'w"

text \<open>The dict appended in the \<^verbatim>\<open>else\<close> branch and in the \<^verbatim>\<open>except\<close> branch.\<close>

definition placeholder :: "string \<Rightarrow> pydict" where
  "placeholder domain =
     [(''organization'', PStr ''N/A''),
      (''domain'', PStr domain),
      (''industry'', PStr ''N/A''),
      (''emails_found'', PInt 0),
      (''employees'', PStr ''N/A''),
      (''score'', PInt 0)]"

text \<open>
  The body of the \<^verbatim>\<open>try\<close>: what it appends, or the exception it raises.
  \<^verbatim>\<open>
  response = requests.get(url)
  if response.status_code == 200:
      data = response.json()["data"]
      result = score_startup(data)
      results.append(result)
  else:
      results.append({... placeholder ...})
  \<close>
\<close>

definition try_block :: "fetch_outcome \<Rightarrow> string \<Rightarrow> error + pydict" where
  "try_block outcome domain =
     (case outcome of
        RequestRaised \<Rightarrow> Inl RequestError
      | Response status_code body \<Rightarrow>
          if status_code = 200 then
            (case body of
               None \<Rightarrow> Inl JSONDecodeError
             | Some json \<Rightarrow>
                 (case subscript json ''data'' of
                    Inl e \<Rightarrow> Inl e
                  | Inr data \<Rightarrow> score_startup data))
          else Inr (placeholder domain))"

text \<open>The bare \<^verbatim>\<open>except:\<close> turns every exception of the body into the placeholder.\<close>

definition process_domain :: "fetch_outcome \<Rightarrow> string \<Rightarrow> pydict" where
  "process_domain outcome domain =
     (case try_block outcome domain of
        Inl e \<Rightarrow> placeholder domain
      | Inr result \<Rightarrow> result)"

text \<open>
  \<^verbatim>\<open>for domain in df["domain"]\<close>, with \<^verbatim>\<open>results\<close> as the accumulator. The pause
  \<^verbatim>\<open>time.sleep(1.1)\<close> changes no value and is left out.
\<close>

fun batch_loop :: "'w fetch \<Rightarrow> 'w \<Rightarrow> string list \<Rightarrow> pydict list \<Rightarrow> pydict list \<times> 'w" where
  "batch_loop fetch w [] results = (results, w)"
| "batch_loop fetch w (domain # rest) results =
     (case fetch w domain of
        (outcome, w') \<Rightarrow> batch_loop fetch w' rest (results @ [process_domain outcome domain]))"

definition run_batch :: "'w fetch \<Rightarrow> 'w \<Rightarrow> string list \<Rightarrow> pydict list" where
  "run_batch fetch w domains = fst (batch_loop fetch w domains [])"

text \<open>The outcomes of the successive fetches of a run, in call order.\<close>

fun outcomes :: "'w fetch \<Rightarrow> 'w \<Rightarrow> string list \<Rightarrow> fetch_outcome list" where
  "outcomes fetch w [] = []"
| "outcomes fetch w (domain # rest) =
     (case fetch w domain of (outcome, w') \<Rightarrow> outcome # outcomes fetch w' rest)"

section \<open>The result tables\<close>

text \<open>
  A DataFrame is the list of its rows, each row a dict from column name to value.
  The score column of a row; every row built by the loop holds an int there.
\<close>

definition row_score :: "pydict \<Rightarrow> int" where
  "row_score row = (case map_of row ''score'' of Some (PInt n) \<Rightarrow> n | _ \<Rightarrow> 0)"

text \<open>\<^verbatim>\<open>df["score_group"] = df["score"].apply(classify_score)\<close>\<close>

definition add_score_group :: "pydict list \<Rightarrow> pydict list" where
  "add_score_group df =
     map (\<lambda>row. AList.update ''score_group'' (PStr (classify_score (row_score row))) row) df"

text \<open>
  \<^verbatim>\<open>sort_values(by="score", ascending=False)\<close> is pandas code. It is called with the
  default \<^verbatim>\<open>kind\<close>, for which pandas promises a rearrangement of the rows in descending
  order of the key and no particular order among equal keys. The tables below take the
  sort as a parameter; this is what they may assume of it.
\<close>

definition sorts_by_score_desc :: "(pydict list \<Rightarrow> pydict list) \<Rightarrow> bool" where
  "sorts_by_score_desc sort_values \<longleftrightarrow>
     (\<forall>df. mset (sort_values df) = mset df \<and>
           sorted_wrt (\<lambda>a b. row_score a \<ge> row_score b) (sort_values df))"

text \<open>One sort that meets it: insertion sort on the negated score.\<close>

definition insertion_sort_desc :: "pydict list \<Rightarrow> pydict list" where
  "insertion_sort_desc df = sort_key (\<lambda>row. - row_score row) df"

text \<open>
  Lines 181 to 201, returning the full table and the top-10 table. An empty
  \<^verbatim>\<open>results\<close> gives a DataFrame without columns, and sorting it by \<^verbatim>\<open>"score"\<close>
  raises KeyError.
  \<^verbatim>\<open>
  results_df = pd.DataFrame(results).sort_values(by="score", ascending=False)
  results_df["score_group"] = results_df["score"].apply(classify_score)
  results_df = pd.DataFrame(results).sort_values(by="score", ascending=False)
  top10 = results_df.head(10)
  top10["score_group"] = top10["score"].apply(classify_score)
  \<close>
\<close>

definition dashboard ::
  "(pydict list \<Rightarrow> pydict list) \<Rightarrow> pydict list \<Rightarrow> error + (pydict list \<times> pydict list)" where
  "dashboard sort_values results =
     (if results = [] then Inl KeyError
      else
        (let results_df = sort_values results;
             results_df = add_score_group results_df;
             results_df = sort_values results;
             top10 = take 10 results_df;
             top10 = add_score_group top10
         in Inr (results_df, top10)))"

section \<open>Records the properties are stated on\<close>

text \<open>
  A shape on which \<^verbatim>\<open>score_startup\<close> raises nothing: a field that is tested for
  truth and then used as a number or as a string is one, or is falsy.
\<close>

definition number_or_falsy :: "pyval \<Rightarrow> bool" where
  "number_or_falsy v = (if truthy v then as_number v \<noteq> None else True)"

definition text_or_falsy :: "pyval \<Rightarrow> bool" where
  "text_or_falsy v = (if truthy v then (case v of PStr s \<Rightarrow> True | _ \<Rightarrow> False) else True)"

definition well_formed_email :: "pyval \<Rightarrow> bool" where
  "well_formed_email email =
     (case email of
        PDict em \<Rightarrow>
          (case map_of em ''type'' of
             None \<Rightarrow> False
           | Some t \<Rightarrow>
               if t \<in> set [PStr ''generic'', PStr ''personal''] then
                 as_number (dict_get em ''confidence'' (PInt 0)) \<noteq> None
                 \<and> text_or_falsy (dict_get em ''position'' PNone)
               else True)
      | _ \<Rightarrow> False)"

definition well_formed_record :: "pyval \<Rightarrow> bool" where
  "well_formed_record data =
     (case data of
        PDict d \<Rightarrow>
          number_or_falsy (dict_get d ''emails_count'' (PInt 0))
          \<and> text_or_falsy (dict_get d ''industry'' (PStr ''''))
          \<and> number_or_falsy (dict_get d ''employees'' (PInt 0))
          \<and> (case iterate (dict_get d ''emails'' (PList [])) of
                Inl e \<Rightarrow> False
              | Inr emails \<Rightarrow> list_all well_formed_email emails)
      | _ \<Rightarrow> False)"

text \<open>The record of the end-to-end example, with the headcount under \<^verbatim>\<open>employees_count\<close>.\<close>

definition example_emails :: pyval where
  "example_emails =
     PList [PDict [(''type'', PStr ''generic''),
                   (''confidence'', PInt 95),
                   (''position'', PStr ''CTO'')]]"

definition example_record :: pyval where
  "example_record =
     PDict [(''domain'', PStr ''stripe.com''),
            (''industry'', PStr ''Technology''),
            (''employees_count'', PInt 500),
            (''emails_count'', PInt 2),
            (''webmail'', PBool False),
            (''emails'', example_emails)]"

text \<open>The same record with the headcount under the key the function reads.\<close>

definition example_record_employees :: pyval where
  "example_record_employees =
     PDict [(''domain'', PStr ''stripe.com''),
            (''industry'', PStr ''Technology''),
            (''employees'', PInt 500),
            (''emails_count'', PInt 2),
            (''webmail'', PBool False),
            (''emails'', example_emails)]"

text \<open>A generic address of a chief executive, found with confidence 90.\<close>

definition exec_email :: pyval where
  "exec_email =
     PDict [(''type'', PStr ''generic''), (''confidence'', PInt 90), (''position'', PStr ''CEO'')]"

text \<open>
  A network for the examples, with the number of calls made so far as its state: the
  second call is answered 404, every other call 200 with a small payload.
\<close>

definition demo_fetch :: "nat fetch" where
  "demo_fetch n domain =
     (if n = 1 then Response 404 None
      else Response 200 (Some (PDict [(''data'',
             PDict [(''domain'', PStr domain),
                    (''industry'', PStr ''SaaS''),
                    (''employees'', PInt 50),
                    (''emails_count'', PInt (int n + 1))])])),
      n + 1)"

section \<open>Evaluation lemmas\<close>

lemmas term_defs = email_volume_term_def industry_term_def headcount_term_def webmail_term_def
  email_bonus_def confidence_bonus_def position_bonus_def

lemmas eval_defs = score_startup_def score_of_def dict_get_def term_defs lower_def
  lower_char_def py_or_def classify_score_def Let_def

lemma email_bonus_exec: "email_bonus exec_email = Inr 15"
  by (simp add: exec_email_def eval_defs)

lemma emails_loop_exec: "emails_loop (replicate n exec_email) s = Inr (s + 15 * int n)"
  by (induction n arbitrary: s) (simp_all add: email_bonus_exec)

section \<open>The end-to-end example\<close>

text \<open>
  C1, as stated, fails: the example record does not score 65. The function reads the
  headcount from the key \<^verbatim>\<open>employees\<close>; the record carries it under
  \<^verbatim>\<open>employees_count\<close>, which is never looked at, so the headcount term is 0.
\<close>

theorem example_record_score_not_65:
  "score_of (score_startup example_record) \<noteq> Some 65"
  by (simp add: example_record_def example_emails_def eval_defs)

text \<open>
  C1, amended: the example record scores 45, made of 20 for the email volume, 10 for
  the industry, 0 for the headcount, 0 for webmail and 15 for the one email entry
  (10 for the confidence and 5 for the position), and 45 is in tier Mid. The same record
  with the headcount under \<^verbatim>\<open>employees\<close> scores 65, also in tier Mid.
\<close>

theorem example_record_score:
  "score_of (score_startup example_record) = Some 45
   \<and> email_volume_term (PInt 2) = Inr 20
   \<and> industry_term (PStr ''Technology'') = Inr 10
   \<and> headcount_term (PInt 0) = Inr 0
   \<and> webmail_term (PBool False) = 0
   \<and> emails_loop [PDict [(''type'', PStr ''generic''), (''confidence'', PInt 95),
                           (''position'', PStr ''CTO'')]] 0 = Inr 15
   \<and> classify_score 45 = ''Mid''
   \<and> score_of (score_startup example_record_employees) = Some 65
   \<and> headcount_term (PInt 500) = Inr 20
   \<and> classify_score 65 = ''Mid''"
  by (simp add: example_record_def example_record_employees_def example_emails_def eval_defs)

section \<open>The terms of the score\<close>

text \<open>
  C5: the per-email bonus is not capped and the total is not clamped. Ten generic
  entries with confidence 90 and position CEO add exactly 150; a record holding nothing
  but these entries scores 150, above 100, and with \<open>n\<close> such entries it scores
  \<open>15 * n\<close>. On any record with these ten entries that is scored, the score is the
  plain sum of the four other terms and 150.
\<close>

theorem per_email_bonus_uncapped:
  "emails_loop (replicate 10 exec_email) 0 = Inr 150
   \<and> score_of (score_startup (PDict [(''emails'', PList (replicate 10 exec_email))])) = Some 150
   \<and> (100::int) < 150
   \<and> (\<forall>n. score_of (score_startup (PDict [(''emails'', PList (replicate n exec_email))]))
          = Some (15 * int n))
   \<and> (map_of d ''emails'' = Some (PList (replicate 10 exec_email))
        \<and> score_startup (PDict d) = Inr r \<longrightarrow>
       (\<exists>s1 s2 s3.
          email_volume_term (dict_get d ''emails_count'' (PInt 0)) = Inr s1
          \<and> industry_term (dict_get d ''industry'' (PStr '''')) = Inr s2
          \<and> headcount_term (dict_get d ''employees'' (PInt 0)) = Inr s3
          \<and> score_of (Inr r)
              = Some (s1 + s2 + s3 + webmail_term (dict_get d ''webmail'' PNone) + 150)))"
proof -
  have small: "\<And>n. score_of (score_startup (PDict [(''emails'', PList (replicate n exec_email))]))
      = Some (15 * int n)"
    by (simp add: emails_loop_exec score_startup_def score_of_def dict_get_def
        email_volume_term_def industry_term_def headcount_term_def webmail_term_def Let_def)
  have sum: "map_of d ''emails'' = Some (PList (replicate 10 exec_email))
        \<and> score_startup (PDict d) = Inr r \<longrightarrow>
       (\<exists>s1 s2 s3.
          email_volume_term (dict_get d ''emails_count'' (PInt 0)) = Inr s1
          \<and> industry_term (dict_get d ''industry'' (PStr '''')) = Inr s2
          \<and> headcount_term (dict_get d ''employees'' (PInt 0)) = Inr s3
          \<and> score_of (Inr r)
              = Some (s1 + s2 + s3 + webmail_term (dict_get d ''webmail'' PNone) + 150))"
    by (auto simp: score_startup_def score_of_def Let_def emails_loop_exec
        dict_get_def [of d "''emails''"] split: sum.splits)
  show ?thesis
    using small [of 10] small sum by (simp add: emails_loop_exec)
qed

theorem per_email_bonus_uncapped_witness:
  "map_of [(''emails_count'', PInt 3), (''emails'', PList (replicate 10 exec_email))] ''emails''
     = Some (PList (replicate 10 exec_email))
   \<and> score_of (score_startup
        (PDict [(''emails_count'', PInt 3), (''emails'', PList (replicate 10 exec_email))]))
     = Some 180"
proof -
  let ?d = "[(''emails_count'', PInt 3), (''emails'', PList (replicate 10 exec_email))]"
  obtain r where r: "score_startup (PDict ?d) = Inr r"
    by (simp add: score_startup_def dict_get_def email_volume_term_def industry_term_def
        headcount_term_def webmail_term_def Let_def emails_loop_exec)
  from per_email_bonus_uncapped [of ?d r] r
  show ?thesis
    by (simp add: dict_get_def email_volume_term_def industry_term_def headcount_term_def
        webmail_term_def)
qed

text \<open>
  C6: the email-volume term is 0 when \<^verbatim>\<open>emails_count\<close> is absent, null or zero and
  \<open>min 30 (emails_count * 10)\<close> when it is a nonzero integer; whatever the field holds,
  a term that is computed never exceeds 30; a count of 50 gives exactly 30; and a
  record holding nothing but the count scores exactly this term.
\<close>

theorem email_volume_term_capped:
  "(map_of d ''emails_count'' = None \<longrightarrow>
      email_volume_term (dict_get d ''emails_count'' (PInt 0)) = Inr 0)
   \<and> (map_of d ''emails_count'' = Some PNone \<longrightarrow>
      email_volume_term (dict_get d ''emails_count'' (PInt 0)) = Inr 0)
   \<and> (map_of d ''emails_count'' = Some (PInt n) \<longrightarrow>
      email_volume_term (dict_get d ''emails_count'' (PInt 0))
        = Inr (if n = 0 then 0 else min 30 (n * 10)))
   \<and> (\<forall>t. email_volume_term v = Inr t \<longrightarrow> t \<le> 30)
   \<and> email_volume_term (PInt 50) = Inr 30
   \<and> score_of (score_startup (PDict [(''emails_count'', PInt n)]))
        = Some (if n = 0 then 0 else min 30 (n * 10))"
  by (auto simp: eval_defs split: option.splits)

theorem email_volume_term_capped_witness:
  "map_of [(''domain'', PStr ''a.io'')] ''emails_count'' = None
   \<and> email_volume_term (dict_get [(''domain'', PStr ''a.io'')] ''emails_count'' (PInt 0)) = Inr 0
   \<and> map_of [(''emails_count'', PInt 50)] ''emails_count'' = Some (PInt 50)
   \<and> email_volume_term (dict_get [(''emails_count'', PInt 50)] ''emails_count'' (PInt 0)) = Inr 30
   \<and> email_volume_term (PInt 2) = Inr 20 \<and> (20::int) \<le> 30"
  using email_volume_term_capped [of "[(''domain'', PStr ''a.io'')]" 0 "PInt 2"]
    email_volume_term_capped [of "[(''emails_count'', PInt 50)]" 50 "PInt 2"]
  by (simp add: email_volume_term_def)

section \<open>Tier classification\<close>

text \<open>
  C7: the tier depends on the score alone, with inclusive lower edges: 75 and above is
  High, 40 up to 74 is Mid, below 40 is Low; so 75 is High, 74 and 40 are Mid, 39 is Low.
\<close>

theorem classify_score_bands:
  "(75 \<le> s \<longrightarrow> classify_score s = ''High'')
   \<and> (40 \<le> s \<and> s < 75 \<longrightarrow> classify_score s = ''Mid'')
   \<and> (s < 40 \<longrightarrow> classify_score s = ''Low'')
   \<and> classify_score 75 = ''High'' \<and> classify_score 74 = ''Mid''
   \<and> classify_score 40 = ''Mid'' \<and> classify_score 39 = ''Low''"
  by (simp add: classify_score_def)

theorem classify_score_bands_witness:
  "(75::int) \<le> 90 \<and> classify_score 90 = ''High''
   \<and> (40::int) \<le> 55 \<and> (55::int) < 75 \<and> classify_score 55 = ''Mid''
   \<and> (12::int) < 40 \<and> classify_score 12 = ''Low''"
  using classify_score_bands [of 90] classify_score_bands [of 55] classify_score_bands [of 12]
  by simp

section \<open>When the scoring function returns\<close>

lemma email_bonus_returns_iff: "(\<exists>b. email_bonus e = Inr b) \<longleftrightarrow> well_formed_email e"
  by (cases e)
     (auto simp: email_bonus_def well_formed_email_def confidence_bonus_def position_bonus_def
        text_or_falsy_def Let_def split: option.splits pyval.splits sum.splits if_splits)

lemma emails_loop_returns_iff:
  "(\<exists>t. emails_loop es s = Inr t) \<longleftrightarrow> list_all well_formed_email es"
proof (induction es arbitrary: s)
  case Nil
  show ?case by simp
next
  case (Cons e es)
  show ?case
  proof (cases "email_bonus e")
    case (Inl err)
    with email_bonus_returns_iff [of e] show ?thesis by auto
  next
    case (Inr b)
    with email_bonus_returns_iff [of e] Cons.IH [of "s + b"] show ?thesis by auto
  qed
qed

lemma email_volume_returns_iff: "(\<exists>t. email_volume_term v = Inr t) \<longleftrightarrow> number_or_falsy v"
  by (auto simp: email_volume_term_def number_or_falsy_def split: option.splits)

lemma headcount_returns_iff: "(\<exists>t. headcount_term v = Inr t) \<longleftrightarrow> number_or_falsy v"
  by (auto simp: headcount_term_def number_or_falsy_def split: option.splits)

lemma industry_returns_iff: "(\<exists>t. industry_term v = Inr t) \<longleftrightarrow> text_or_falsy v"
  by (auto simp: industry_term_def text_or_falsy_def split: pyval.splits)

lemma emails_loop_Inl_D: "emails_loop es s = Inl e \<Longrightarrow> \<not> list_all well_formed_email es"
  using emails_loop_returns_iff [of es s] by auto

lemma emails_loop_Inr_D: "emails_loop es s = Inr t \<Longrightarrow> list_all well_formed_email es"
  using emails_loop_returns_iff [of es s] by auto

lemma email_volume_Inl_D: "email_volume_term v = Inl e \<Longrightarrow> \<not> number_or_falsy v"
  using email_volume_returns_iff [of v] by auto

lemma email_volume_Inr_D: "email_volume_term v = Inr t \<Longrightarrow> number_or_falsy v"
  using email_volume_returns_iff [of v] by auto

lemma headcount_Inl_D: "headcount_term v = Inl e \<Longrightarrow> \<not> number_or_falsy v"
  using headcount_returns_iff [of v] by auto

lemma headcount_Inr_D: "headcount_term v = Inr t \<Longrightarrow> number_or_falsy v"
  using headcount_returns_iff [of v] by auto

lemma industry_Inl_D: "industry_term v = Inl e \<Longrightarrow> \<not> text_or_falsy v"
  using industry_returns_iff [of v] by auto

lemma industry_Inr_D: "industry_term v = Inr t \<Longrightarrow> text_or_falsy v"
  using industry_returns_iff [of v] by auto

lemmas returns_D = emails_loop_Inl_D emails_loop_Inr_D email_volume_Inl_D email_volume_Inr_D
  headcount_Inl_D headcount_Inr_D industry_Inl_D industry_Inr_D

lemma score_startup_returns_iff: "(\<exists>r. score_startup data = Inr r) \<longleftrightarrow> well_formed_record data"
proof (cases data)
  case (PDict d)
  show ?thesis
    unfolding PDict score_startup_def well_formed_record_def Let_def
    by (auto split: sum.splits dest: returns_D)
qed (simp_all add: score_startup_def well_formed_record_def)


text \<open>
  C8, as stated, fails: the function raises on malformed fields instead of coercing
  them. An email entry without \<^verbatim>\<open>type\<close> raises KeyError, an industry that is a
  number raises AttributeError, a count that is a string raises TypeError; and a
  confidence of 250, outside 0 to 100, is not treated as absent but earns the bonus.
\<close>

theorem score_startup_raises_on_malformed:
  "score_startup (PDict [(''emails'', PList [PDict [(''confidence'', PInt 90)]])]) = Inl KeyError
   \<and> score_startup (PDict [(''industry'', PInt 7)]) = Inl AttributeError
   \<and> score_startup (PDict [(''emails_count'', PStr ''3'')]) = Inl TypeError
   \<and> score_of (score_startup (PDict [(''emails'',
        PList [PDict [(''type'', PStr ''generic''), (''confidence'', PInt 250)]])])) = Some 10"
  by (simp add: eval_defs)

text \<open>
  C8, amended: the function returns a result on every record described by
  \<open>well_formed_record\<close>: a dict in which the count and the headcount are integers,
  booleans or falsy, the industry is a string or falsy, the emails can be iterated and
  every entry is a dict with a \<^verbatim>\<open>type\<close>, and in generic and personal entries the
  confidence is an integer or a boolean (0 when absent) and the position a string or
  falsy. An absent field counts for nothing: each term is 0 when its key is missing,
  and the empty record scores 0.
\<close>

theorem score_startup_total_on_well_formed:
  "(well_formed_record data \<longrightarrow> (\<exists>r. score_startup data = Inr r))
   \<and> score_of (score_startup (PDict [])) = Some 0
   \<and> (map_of d ''emails_count'' = None \<longrightarrow>
        email_volume_term (dict_get d ''emails_count'' (PInt 0)) = Inr 0)
   \<and> (map_of d ''industry'' = None \<longrightarrow>
        industry_term (dict_get d ''industry'' (PStr '''')) = Inr 0)
   \<and> (map_of d ''employees'' = None \<longrightarrow>
        headcount_term (dict_get d ''employees'' (PInt 0)) = Inr 0)
   \<and> (map_of d ''webmail'' = None \<longrightarrow> webmail_term (dict_get d ''webmail'' PNone) = 0)
   \<and> (map_of d ''emails'' = None \<longrightarrow> iterate (dict_get d ''emails'' (PList [])) = Inr [])
   \<and> (map_of em ''confidence'' = None \<longrightarrow> confidence_bonus em = Inr 0)
   \<and> (map_of em ''position'' = None \<longrightarrow> position_bonus em = Inr 0)"
proof -
  have returns: "well_formed_record data \<longrightarrow> (\<exists>r. score_startup data = Inr r)"
    using score_startup_returns_iff [of data] by simp
  have empty: "score_of (score_startup (PDict [])) = Some 0"
    by (simp add: eval_defs)
  show ?thesis
    using returns empty by (simp add: dict_get_def term_defs)
qed

theorem score_startup_total_on_well_formed_witness:
  "well_formed_record example_record \<and> (\<exists>r. score_startup example_record = Inr r)
   \<and> map_of [(''domain'', PStr ''a.io'')] ''emails_count'' = None
   \<and> email_volume_term (dict_get [(''domain'', PStr ''a.io'')] ''emails_count'' (PInt 0)) = Inr 0
   \<and> map_of [(''domain'', PStr ''a.io'')] ''industry'' = None
   \<and> industry_term (dict_get [(''domain'', PStr ''a.io'')] ''industry'' (PStr '''')) = Inr 0
   \<and> map_of [(''domain'', PStr ''a.io'')] ''employees'' = None
   \<and> headcount_term (dict_get [(''domain'', PStr ''a.io'')] ''employees'' (PInt 0)) = Inr 0
   \<and> map_of [(''domain'', PStr ''a.io'')] ''webmail'' = None
   \<and> webmail_term (dict_get [(''domain'', PStr ''a.io'')] ''webmail'' PNone) = 0
   \<and> map_of [(''domain'', PStr ''a.io'')] ''emails'' = None
   \<and> iterate (dict_get [(''domain'', PStr ''a.io'')] ''emails'' (PList [])) = Inr []
   \<and> map_of [(''type'', PStr ''generic'')] ''confidence'' = None
   \<and> confidence_bonus [(''type'', PStr ''generic'')] = Inr 0
   \<and> map_of [(''type'', PStr ''generic'')] ''position'' = None
   \<and> position_bonus [(''type'', PStr ''generic'')] = Inr 0"
proof -
  have wf: "well_formed_record example_record"
    by (simp add: example_record_def example_emails_def well_formed_record_def
        well_formed_email_def number_or_falsy_def text_or_falsy_def dict_get_def)
  note a = score_startup_total_on_well_formed [where data = example_record
      and d = "[(''domain'', PStr ''a.io'')]" and em = "[(''type'', PStr ''generic'')]"]
  show ?thesis
    using a wf by simp
qed

section \<open>The organization of a result\<close>




section \<open>Letter case\<close>













section \<open>The batch loop: one result per domain\<close>

lemma length_outcomes: "length (outcomes fetch w domains) = length domains"
  by (induction domains arbitrary: w) (auto split: prod.splits)

lemma batch_loop_results:
  "fst (batch_loop fetch w domains results)
     = results @ map2 process_domain (outcomes fetch w domains) domains"
  by (induction domains arbitrary: w results) (auto split: prod.splits)

lemma run_batch_map: "run_batch fetch w domains = map2 process_domain (outcomes fetch w domains) domains"
  by (simp add: run_batch_def batch_loop_results)

lemmas batch_defs = run_batch_def demo_fetch_def process_domain_def try_block_def placeholder_def
  row_score_def

lemma demo_run:
  "run_batch demo_fetch 0 [''a.com'', ''b.com'', ''c.com''] =
    [[(''organization'', PStr ''a.com''), (''domain'', PStr ''a.com''),
      (''industry'', PStr ''SaaS''), (''emails_found'', PInt 1),
      (''employees'', PInt 50), (''score'', PInt 40)],
     placeholder ''b.com'',
     [(''organization'', PStr ''c.com''), (''domain'', PStr ''c.com''),
      (''industry'', PStr ''SaaS''), (''emails_found'', PInt 3),
      (''employees'', PInt 50), (''score'', PInt 60)]]"
  by (simp add: batch_defs eval_defs)

text \<open>
  C2, as stated, fails in one detail: the placeholder the loop appends has six keys and
  \<^verbatim>\<open>score_group\<close> is not one of them. In a batch of three domains whose second fetch
  is answered 404, the second result carries no \<^verbatim>\<open>score_group\<close>.
\<close>

theorem placeholder_has_no_score_group:
  "map_of (run_batch demo_fetch 0 [''a.com'', ''b.com'', ''c.com''] ! 1) ''score_group'' = None
   \<and> map_of (run_batch demo_fetch 0 [''a.com'', ''b.com'', ''c.com''] ! 1) ''score_group''
        \<noteq> Some (PStr ''Low'')"
  by (simp add: demo_run placeholder_def)

text \<open>
  C2, amended: the loop returns exactly one result per domain, in input order. A fetch
  that raises, a status other than 200, a body that does not decode or lacks
  \<^verbatim>\<open>data\<close>, and a payload on which scoring raises all yield the placeholder built from
  the input domain (organization N/A, industry N/A, emails_found 0, employees N/A,
  score 0), whose score is in tier Low, and the loop goes on; a payload that is scored
  yields its result. The loop is a total function, so nothing escapes to the caller.
\<close>

theorem batch_loop_resilient:
  "length (run_batch fetch w domains) = length domains
   \<and> (\<forall>i < length domains.
         run_batch fetch w domains ! i
           = process_domain (outcomes fetch w domains ! i) (domains ! i))
   \<and> process_domain RequestRaised domain = placeholder domain
   \<and> (status \<noteq> 200 \<longrightarrow> process_domain (Response status body) domain = placeholder domain)
   \<and> process_domain (Response 200 None) domain = placeholder domain
   \<and> (subscript json ''data'' = Inl e \<longrightarrow>
        process_domain (Response 200 (Some json)) domain = placeholder domain)
   \<and> (subscript json ''data'' = Inr data \<and> score_startup data = Inl e \<longrightarrow>
        process_domain (Response 200 (Some json)) domain = placeholder domain)
   \<and> (subscript json ''data'' = Inr data \<and> score_startup data = Inr r \<longrightarrow>
        process_domain (Response 200 (Some json)) domain = r)
   \<and> placeholder domain =
        [(''organization'', PStr ''N/A''), (''domain'', PStr domain),
         (''industry'', PStr ''N/A''), (''emails_found'', PInt 0),
         (''employees'', PStr ''N/A''), (''score'', PInt 0)]
   \<and> row_score (placeholder domain) = 0
   \<and> classify_score 0 = ''Low''"
proof -
  have nth: "\<forall>i < length domains.
         run_batch fetch w domains ! i
           = process_domain (outcomes fetch w domains ! i) (domains ! i)"
    by (simp add: run_batch_map length_outcomes)
  have len: "length (run_batch fetch w domains) = length domains"
    by (simp add: run_batch_map length_outcomes)
  show ?thesis
    using nth len
    by (simp add: process_domain_def try_block_def placeholder_def row_score_def classify_score_def)
qed

theorem batch_loop_resilient_witness:
  "length (run_batch demo_fetch 0 [''a.com'', ''b.com'', ''c.com'']) = 3
   \<and> (1::nat) < length [''a.com'', ''b.com'', ''c.com'']
   \<and> outcomes demo_fetch 0 [''a.com'', ''b.com'', ''c.com''] ! 1 = Response 404 None
   \<and> (404::int) \<noteq> 200
   \<and> run_batch demo_fetch 0 [''a.com'', ''b.com'', ''c.com''] ! 1 = placeholder ''b.com''
   \<and> run_batch demo_fetch 0 [''a.com'', ''b.com'', ''c.com''] ! 0 =
        [(''organization'', PStr ''a.com''), (''domain'', PStr ''a.com''),
         (''industry'', PStr ''SaaS''), (''emails_found'', PInt 1),
         (''employees'', PInt 50), (''score'', PInt 40)]
   \<and> run_batch demo_fetch 0 [''a.com'', ''b.com'', ''c.com''] ! 2 =
        [(''organization'', PStr ''c.com''), (''domain'', PStr ''c.com''),
         (''industry'', PStr ''SaaS''), (''emails_found'', PInt 3),
         (''employees'', PInt 50), (''score'', PInt 60)]
   \<and> subscript (PDict [(''errors'', PList [])]) ''data'' = Inl KeyError
   \<and> process_domain (Response 200 (Some (PDict [(''errors'', PList [])]))) ''b.com''
        = placeholder ''b.com''
   \<and> subscript (PDict [(''data'', PList [])]) ''data'' = Inr (PList [])
   \<and> score_startup (PList []) = Inl AttributeError
   \<and> process_domain (Response 200 (Some (PDict [(''data'', PList [])]))) ''b.com''
        = placeholder ''b.com''
   \<and> subscript (PDict [(''data'', PDict [])]) ''data'' = Inr (PDict [])
   \<and> score_startup (PDict []) =
        Inr [(''organization'', PStr ''N/A''), (''domain'', PNone),
             (''industry'', PStr ''N/A''), (''emails_found'', PInt 0),
             (''employees'', PStr ''N/A''), (''score'', PInt 0)]
   \<and> process_domain (Response 200 (Some (PDict [(''data'', PDict [])]))) ''b.com'' =
        [(''organization'', PStr ''N/A''), (''domain'', PNone),
         (''industry'', PStr ''N/A''), (''emails_found'', PInt 0),
         (''employees'', PStr ''N/A''), (''score'', PInt 0)]"
proof -
  let ?ds = "[''a.com'', ''b.com'', ''c.com'']"
  let ?r = "[(''organization'', PStr ''N/A''), (''domain'', PNone),
             (''industry'', PStr ''N/A''), (''emails_found'', PInt 0),
             (''employees'', PStr ''N/A''), (''score'', PInt 0)]"
  have out: "outcomes demo_fetch 0 ?ds ! 1 = Response 404 None"
    by (simp add: demo_fetch_def)
  have empty: "score_startup (PDict []) = Inr ?r"
    by (simp add: eval_defs)
  have bad: "score_startup (PList []) = Inl AttributeError"
    by (simp add: score_startup_def)
  note a = batch_loop_resilient [where fetch = demo_fetch and w = 0 and domains = ?ds
      and domain = "''b.com''" and status = 404 and body = None
      and json = "PDict [(''errors'', PList [])]" and e = KeyError
      and data = "PList []" and r = ?r]
  note b = batch_loop_resilient [where fetch = demo_fetch and w = 0 and domains = ?ds
      and domain = "''b.com''" and status = 404 and body = None
      and json = "PDict [(''data'', PList [])]" and e = AttributeError
      and data = "PList []" and r = ?r]
  note c = batch_loop_resilient [where fetch = demo_fetch and w = 0 and domains = ?ds
      and domain = "''b.com''" and status = 404 and body = None
      and json = "PDict [(''data'', PDict [])]" and e = KeyError
      and data = "PDict []" and r = ?r]
  show ?thesis
    using a b c out empty bad by (simp add: demo_run)
qed

section \<open>The tables: which rows carry a tier\<close>

text \<open>
  No result of the loop has a \<^verbatim>\<open>score_group\<close>, and sorting only rearranges rows.
  For any sort that meets \<open>sorts_by_score_desc\<close>, the full table is a rearrangement of
  the results in descending order of score and the top-10 table is made of its first
  rows; the order among equal scores is left to the sort.
\<close>

lemma map_of_add_score_group:
  "row \<in> set (add_score_group df) \<Longrightarrow>
   map_of row ''score_group'' \<noteq> None"
  by (auto simp: add_score_group_def update_conv')

lemma score_startup_no_score_group:
  "score_startup data = Inr r \<Longrightarrow> map_of r ''score_group'' = None"
  by (cases data) (auto simp: score_startup_def Let_def split: sum.splits)

lemma try_block_no_score_group:
  "try_block outcome domain = Inr r \<Longrightarrow> map_of r ''score_group'' = None"
proof (cases outcome)
  case RequestRaised
  then show "try_block outcome domain = Inr r \<Longrightarrow> ?thesis"
    by (simp add: try_block_def)
next
  case (Response status_code body)
  then show "try_block outcome domain = Inr r \<Longrightarrow> ?thesis"
    by (auto simp: try_block_def placeholder_def
        split: if_splits option.splits sum.splits dest: score_startup_no_score_group)
qed

lemma process_domain_no_score_group: "map_of (process_domain outcome domain) ''score_group'' = None"
proof (cases "try_block outcome domain")
  case (Inl e)
  then show ?thesis by (simp add: process_domain_def placeholder_def)
next
  case (Inr r)
  then show ?thesis by (simp add: process_domain_def try_block_no_score_group)
qed

lemma run_batch_no_score_group:
  "row \<in> set (run_batch fetch w domains) \<Longrightarrow> map_of row ''score_group'' = None"
  by (auto simp: run_batch_map process_domain_no_score_group dest!: set_zip_leftD
      simp: in_set_zip)

lemma dashboard_full_table_no_score_group:
  assumes "sorts_by_score_desc sort_values"
    and "dashboard sort_values (run_batch fetch w domains) = Inr (results_df, top10)"
    and "row \<in> set results_df"
  shows "map_of row ''score_group'' = None"
proof -
  from assms(2) have "results_df = sort_values (run_batch fetch w domains)"
    by (auto simp: dashboard_def Let_def split: if_splits)
  with assms(1) have "mset results_df = mset (run_batch fetch w domains)"
    by (simp add: sorts_by_score_desc_def)
  then have "set results_df = set (run_batch fetch w domains)"
    by (rule mset_eq_setD)
  with assms(3) show ?thesis
    by (simp add: run_batch_no_score_group)
qed

lemma insertion_sort_desc_sorts: "sorts_by_score_desc insertion_sort_desc"
proof -
  have "sorted_wrt (\<lambda>a b. row_score a \<ge> row_score b) (insertion_sort_desc df)" for df
  proof -
    have "sorted (map (\<lambda>row. - row_score row) (insertion_sort_desc df))"
      by (simp add: insertion_sort_desc_def)
    then show ?thesis
      by (simp add: sorted_wrt_map)
  qed
  then show ?thesis
    by (simp add: sorts_by_score_desc_def insertion_sort_desc_def)
qed

lemma dashboard_sorted_prefix:
  assumes "sorts_by_score_desc sort_values"
    and "dashboard sort_values results = Inr (results_df, top10)"
  shows "mset results_df = mset results"
    and "sorted_wrt (\<lambda>a b. row_score a \<ge> row_score b) results_df"
    and "top10 = add_score_group (take 10 results_df)"
    and "length top10 = min 10 (length results)"
proof -
  from assms(2) have df: "results_df = sort_values results"
    and top: "top10 = add_score_group (take 10 results_df)"
    by (auto simp: dashboard_def Let_def split: if_splits)
  from assms(1) df show "mset results_df = mset results"
    "sorted_wrt (\<lambda>a b. row_score a \<ge> row_score b) results_df"
    by (simp_all add: sorts_by_score_desc_def)
  then have "length results_df = length results"
    by (metis size_mset)
  with top show "top10 = add_score_group (take 10 results_df)"
    "length top10 = min 10 (length results)"
    by (simp_all add: add_score_group_def min.commute)
qed

text \<open>
  C3 does not hold of the code. The column \<^verbatim>\<open>score_group\<close> is attached to
  \<^verbatim>\<open>results_df\<close> and the next statement rebuilds \<^verbatim>\<open>results_df\<close> from
  \<^verbatim>\<open>results\<close>, so the full table that is shown and exported has no such column; only
  the top-10 table has it. This is so for every sort that orders by descending score
  (\<open>dashboard_full_table_no_score_group\<close>); below, the two tables for the batch of
  three domains with a failed second fetch, as domain, score and tier of each row.
\<close>

theorem full_table_lacks_score_group:
  "map_sum id
     (\<lambda>(results_df, top10).
        (map (\<lambda>row. (map_of row ''domain'', map_of row ''score'', map_of row ''score_group''))
           results_df,
         map (\<lambda>row. (map_of row ''domain'', map_of row ''score'', map_of row ''score_group''))
           top10))
     (dashboard insertion_sort_desc (run_batch demo_fetch 0 [''a.com'', ''b.com'', ''c.com'']))
   = Inr ([(Some (PStr ''c.com''), Some (PInt 60), None),
           (Some (PStr ''a.com''), Some (PInt 40), None),
           (Some (PStr ''b.com''), Some (PInt 0), None)],
          [(Some (PStr ''c.com''), Some (PInt 60), Some (PStr ''Mid'')),
           (Some (PStr ''a.com''), Some (PInt 40), Some (PStr ''Mid'')),
           (Some (PStr ''b.com''), Some (PInt 0), Some (PStr ''Low''))])"
  by (simp add: demo_run dashboard_def insertion_sort_desc_def placeholder_def row_score_def
      add_score_group_def classify_score_def Let_def)

end
